theory Spec2Isabelle
  imports Main "HOL-Library.Sublist"
begin

section \<open>Shallow embedding of \<open>dask_compat.py\<close>\<close>

text \<open>
  The module under verification holds four platform flags, two constant tables and two
  functions, \<open>get_version\<close> and \<open>import_optional_dependency\<close>. Everything the functions
  read from the Python runtime (the import machinery, \<open>sys.modules\<close>, the third-party
  \<open>packaging.version.Version\<close> class) is gathered in a record \<open>world\<close> and passed
  explicitly. Exceptions are values of a sum type (\<open>Inl\<close> is a raise, \<open>Inr\<close> a return),
  and the effects a caller can observe (an import attempt, a warning) are listed in a
  trace returned with the outcome.

  Strings are lists of \<open>char\<close>; a \<open>char\<close> stands for a code point below 256.
  \<open>assert\<close> statements are executed (the interpreter does not run with \<open>-O\<close>), and
  \<open>warnings.warn\<close> records the warning and returns (no filter turns warnings into errors).
\<close>

subsection \<open>Python values used by the module\<close>

datatype exn =
    AssertionError string
  | ImportError string
  | InvalidVersion string
  | IndexError string
  | OtherError string

text \<open>
  \<open>ImportError\<close> stands for the class and its subclasses (\<open>ModuleNotFoundError\<close>), which
  is what \<open>except ImportError\<close> catches. \<open>InvalidVersion s\<close> carries the string the
  \<open>Version\<close> constructor refused. \<open>OtherError\<close> is any other exception a module may raise
  while it is imported.
\<close>

fun is_ImportError :: "exn \<Rightarrow> bool" where
  "is_ImportError (ImportError _) = True"
| "is_ImportError _ = False"

text \<open>
  A module object, as far as the code looks at it: \<open>__name__\<close> and the attribute
  \<open>__version__\<close> (\<open>None\<close> when the attribute is missing or holds Python's \<open>None\<close>).
\<close>

record pymodule =
  mod_name :: string
  mod_version :: "string option"

datatype warning_category = UserWarning | DeprecationWarning

datatype event =
    ImportModule string
  | Warn string warning_category

text \<open>
  The runtime the functions run in. \<open>import_module\<close> is \<open>importlib.import_module\<close>
  (\<open>Inl\<close> the exception it raises); \<open>sys_modules\<close> is \<open>sys.modules\<close> as it stands right
  after that call; \<open>Version\<close> is the constructor of \<open>packaging.version.Version\<close>
  (\<open>None\<close> when it raises \<open>InvalidVersion\<close>), \<open>version_less\<close> its \<open><\<close> and
  \<open>version_str\<close> its \<open>str\<close>. The type \<open>'v\<close> is the type of parsed versions.
\<close>

record 'v world =
  import_module :: "string \<Rightarrow> exn + pymodule"
  sys_modules :: "string \<rightharpoonup> pymodule"
  Version :: "string \<Rightarrow> 'v option"
  version_less :: "'v \<Rightarrow> 'v \<Rightarrow> bool"
  version_str :: "'v \<Rightarrow> string"

subsection \<open>String helpers of the Python runtime\<close>

text \<open>\<open>str.isspace\<close> on one code point below 256.\<close>

definition isspace :: "char \<Rightarrow> bool" where
  "isspace c \<longleftrightarrow> c \<in> set [CHR 0x09, CHR 0x0A, CHR 0x0B, CHR 0x0C, CHR 0x0D,
                         CHR 0x1C, CHR 0x1D, CHR 0x1E, CHR 0x1F, CHR 0x20,
                         CHR 0x85, CHR 0xA0]"

text \<open>
  \<open>s.split()\<close>: the maximal runs of non-whitespace characters, in order; no empty
  strings. The first argument is the run read so far.
\<close>

fun split_ws :: "string \<Rightarrow> string \<Rightarrow> string list" where
  "split_ws cur [] = (if cur = [] then [] else [cur])"
| "split_ws cur (c # cs) =
     (if isspace c then (if cur = [] then split_ws [] cs else cur # split_ws [] cs)
      else split_ws (cur @ [c]) cs)"

definition str_split :: "string \<Rightarrow> string list" where
  "str_split s = split_ws [] s"

text \<open>\<open>s.split(sep)\<close> for a separator of one character: never the empty list.\<close>

fun split_on :: "char \<Rightarrow> string \<Rightarrow> string \<Rightarrow> string list" where
  "split_on sep cur [] = [cur]"
| "split_on sep cur (c # cs) =
     (if c = sep then cur # split_on sep [] cs else split_on sep (cur @ [c]) cs)"

definition str_split_sep :: "char \<Rightarrow> string \<Rightarrow> string list" where
  "str_split_sep sep s = split_on sep [] s"

text \<open>\<open>xs[0]\<close>: raises \<open>IndexError\<close> on the empty list.\<close>

fun index0 :: "'a list \<Rightarrow> exn + 'a" where
  "index0 [] = Inl (IndexError ''list index out of range'')"
| "index0 (x # _) = Inr x"

text \<open>\<open>d.get(k, default)\<close> on a dictionary.\<close>

definition dict_get :: "('k \<rightharpoonup> 'a) \<Rightarrow> 'k \<Rightarrow> 'a \<Rightarrow> 'a" where
  "dict_get d k dflt = (case d k of None \<Rightarrow> dflt | Some v \<Rightarrow> v)"

text \<open>
  Truth value of an optional string: \<open>None\<close> and the empty string are false. \<open>a or b\<close>
  is \<open>a\<close> when \<open>a\<close> is true and \<open>b\<close> otherwise.
\<close>

fun truthy :: "string option \<Rightarrow> bool" where
  "truthy None = False"
| "truthy (Some s) = (s \<noteq> [])"

definition py_or :: "string option \<Rightarrow> string option \<Rightarrow> string option" where
  "py_or a b = (if truthy a then a else b)"

text \<open>\<open>'{s}'\<close> inside an f-string: the text between two apostrophes.\<close>

definition quoted :: "string \<Rightarrow> string" where
  "quoted s = CHR 0x27 # s @ [CHR 0x27]"

subsection \<open>Platform flags\<close>

text \<open>Each flag is a test on \<open>sys.platform\<close>, which is the argument here.\<close>

definition EMSCRIPTEN :: "string \<Rightarrow> bool" where
  "EMSCRIPTEN platform \<longleftrightarrow> platform = ''emscripten''"

definition LINUX :: "string \<Rightarrow> bool" where
  "LINUX platform \<longleftrightarrow> platform = ''linux''"

definition MACOS :: "string \<Rightarrow> bool" where
  "MACOS platform \<longleftrightarrow> platform = ''darwin''"

definition WINDOWS :: "string \<Rightarrow> bool" where
  "WINDOWS platform \<longleftrightarrow> platform = ''win32''"

definition platform_flags :: "string \<Rightarrow> bool list" where
  "platform_flags platform =
     [EMSCRIPTEN platform, LINUX platform, MACOS platform, WINDOWS platform]"

definition flags_set :: "string \<Rightarrow> nat" where
  "flags_set platform = length (filter id (platform_flags platform))"

subsection \<open>The two tables\<close>

definition VERSIONS :: "string \<rightharpoonup> string" where
  "VERSIONS = map_of
     [(''numpy'', ''1.21.0''),
      (''pandas'', ''2.0.0''),
      (''bokeh'', ''2.4.2''),
      (''jinja2'', ''2.10.3''),
      (''pyarrow'', ''7.0.0''),
      (''lz4'', ''4.3.2'')]"

definition INSTALL_MAPPING :: "string \<rightharpoonup> string" where
  "INSTALL_MAPPING = map_of
     [(''sqlalchemy'', ''SQLAlchemy''),
      (''tables'', ''pytables'')]"

subsection \<open>\<open>get_version\<close>\<close>

definition undetermined_msg :: "string \<Rightarrow> string" where
  "undetermined_msg module_name =
     ''Cannot determine the version for the module '' @ quoted module_name @ ''.''"

definition get_version :: "pymodule \<Rightarrow> exn + string" where
  "get_version module =
     (let version = mod_version module in
      if \<not> truthy version then Inl (ImportError (undetermined_msg (mod_name module)))
      else if mod_name module = ''psycopg2'' then index0 (str_split (the version))
      else Inr (the version))"

subsection \<open>\<open>import_optional_dependency\<close>\<close>

definition missing_msg :: "string \<Rightarrow> string \<Rightarrow> string" where
  "missing_msg package_name extra =
     ''Missing optional dependency '' @ quoted package_name @ ''. '' @ extra @ '' ''
     @ ''Use pip or conda to install '' @ package_name @ ''.''"

definition invalid_msg :: "string \<Rightarrow> string" where
  "invalid_msg parent = ''Invalid version for the module '' @ quoted parent @ ''.''"

definition version_msg :: "string \<Rightarrow> string \<Rightarrow> string \<Rightarrow> string" where
  "version_msg parent installed_version required_version =
     quoted parent @ '' version '' @ quoted installed_version @ '' is installed; ''
     @ ''Dask requires version '' @ quoted required_version @ '' or newer.''"

definition assert_msg :: string where
  "assert_msg = ''Invalid error handling strategy specified.''"

type_synonym result = "event list \<times> (exn + pymodule option)"

text \<open>
  Lines 106 to 125: the version check, entered with a minimum that is true. Only
  \<open>InvalidVersion\<close> raised by the parse of the installed version is caught; what
  \<open>get_version\<close> raises goes through, and so does \<open>InvalidVersion\<close> for the minimum,
  which is parsed outside the \<open>try\<close>.
\<close>

definition check_version ::
  "'v world \<Rightarrow> string \<Rightarrow> pymodule \<Rightarrow> string \<Rightarrow> string \<Rightarrow> pymodule \<Rightarrow> result" where
  "check_version w parent module_to_check minimum_version errors module =
     (case get_version module_to_check of
        Inl e \<Rightarrow> ([], Inl e)
      | Inr s \<Rightarrow>
         (case Version w s of
            None \<Rightarrow> ([], Inl (ImportError (invalid_msg parent)))
          | Some installed_version \<Rightarrow>
             (case Version w minimum_version of
                None \<Rightarrow> ([], Inl (InvalidVersion minimum_version))
              | Some required_version \<Rightarrow>
                 if version_less w installed_version required_version then
                   (let vmsg = version_msg parent (version_str w installed_version)
                                 (version_str w required_version) in
                    if errors = ''warn'' then ([Warn vmsg UserWarning], Inr None)
                    else if errors = ''raise'' then ([], Inl (ImportError vmsg))
                    else ([], Inr None))
                 else ([], Inr (Some module)))))"

text \<open>The local \<open>minimum_version\<close> of line 104.\<close>

definition minimum_version_for :: "string option \<Rightarrow> string \<Rightarrow> string option" where
  "minimum_version_for min_version parent = py_or min_version (VERSIONS parent)"

text \<open>The local \<open>parent\<close> of line 100: \<open>name.split(".")[0]\<close>.\<close>

definition parent_of :: "string \<Rightarrow> exn + string" where
  "parent_of name = index0 (str_split_sep CHR ''.'' name)"

text \<open>Lines 99 to 125: what follows a successful import.\<close>

definition after_import ::
  "'v world \<Rightarrow> string \<Rightarrow> string option \<Rightarrow> string \<Rightarrow> pymodule \<Rightarrow> result" where
  "after_import w name min_version errors module =
     (case parent_of name of
        Inl e \<Rightarrow> ([], Inl e)
      | Inr parent \<Rightarrow>
         (let module_to_check = dict_get (sys_modules w) parent module;
              minimum_version = minimum_version_for min_version parent
          in if truthy minimum_version
             then check_version w parent module_to_check (the minimum_version) errors module
             else ([], Inr (Some module))))"

definition import_optional_dependency ::
  "'v world \<Rightarrow> string \<Rightarrow> string \<Rightarrow> string option \<Rightarrow> string \<Rightarrow> result" where
  "import_optional_dependency w name extra min_version errors =
     (if errors \<notin> {''warn'', ''raise'', ''ignore''} then ([], Inl (AssertionError assert_msg))
      else
        (let package_name = dict_get INSTALL_MAPPING name name;
             msg = missing_msg package_name extra
         in case import_module w name of
              Inl err \<Rightarrow>
                if is_ImportError err then
                  (if errors = ''raise'' then ([ImportModule name], Inl (ImportError msg))
                   else ([ImportModule name], Inr None))
                else ([ImportModule name], Inl err)
            | Inr module \<Rightarrow>
                (let (evs, out) = after_import w name min_version errors module
                 in (ImportModule name # evs, out))))"

subsection \<open>A sample runtime\<close>

text \<open>
  The theorems below hold for every \<open>world\<close>. To run the functions on concrete inputs,
  this is one world: \<open>Version\<close> restricted to plain release versions (decimal numbers
  separated by dots, compared number by number with missing numbers read as zero), and
  a handful of installed modules. It stands for \<open>packaging.version\<close> on such strings
  only. As in Python, importing the empty name raises \<open>ValueError\<close>, which is not an
  \<open>ImportError\<close>; a name that is not installed raises \<open>ImportError\<close>.
\<close>

definition digit_val :: "char \<Rightarrow> nat option" where
  "digit_val = map_of
     [(CHR ''0'', 0), (CHR ''1'', 1), (CHR ''2'', 2), (CHR ''3'', 3), (CHR ''4'', 4),
      (CHR ''5'', 5), (CHR ''6'', 6), (CHR ''7'', 7), (CHR ''8'', 8), (CHR ''9'', 9)]"

fun parse_nat_acc :: "nat \<Rightarrow> string \<Rightarrow> nat option" where
  "parse_nat_acc acc [] = Some acc"
| "parse_nat_acc acc (c # cs) =
     (case digit_val c of None \<Rightarrow> None | Some d \<Rightarrow> parse_nat_acc (10 * acc + d) cs)"

definition parse_nat :: "string \<Rightarrow> nat option" where
  "parse_nat s = (if s = [] then None else parse_nat_acc 0 s)"

fun parse_all :: "string list \<Rightarrow> nat list option" where
  "parse_all [] = Some []"
| "parse_all (s # ss) =
     (case parse_nat s of
        None \<Rightarrow> None
      | Some n \<Rightarrow> (case parse_all ss of None \<Rightarrow> None | Some ns \<Rightarrow> Some (n # ns)))"

definition release_Version :: "string \<Rightarrow> nat list option" where
  "release_Version s = parse_all (str_split_sep CHR ''.'' s)"

fun release_less :: "nat list \<Rightarrow> nat list \<Rightarrow> bool" where
  "release_less [] [] = False"
| "release_less [] (y # ys) = (0 < y \<or> release_less [] ys)"
| "release_less (x # xs) [] = False"
| "release_less (x # xs) (y # ys) = (x < y \<or> (x = y \<and> release_less xs ys))"

definition digit_char :: "nat \<Rightarrow> char" where
  "digit_char d = ''0123456789'' ! d"

function show_nat :: "nat \<Rightarrow> string" where
  "show_nat n = (if n < 10 then [digit_char n]
                 else show_nat (n div 10) @ [digit_char (n mod 10)])"
  by pat_completeness auto
termination
  by (relation "measure id") auto

declare show_nat.simps [simp del]

fun release_str :: "nat list \<Rightarrow> string" where
  "release_str [] = []"
| "release_str [n] = show_nat n"
| "release_str (n # ns) = show_nat n @ ''.'' @ release_str ns"

definition installed :: "(string \<times> pymodule) list" where
  "installed =
     [(''numpy'', \<lparr>mod_name = ''numpy'', mod_version = Some ''1.0.0''\<rparr>),
      (''numpy.linalg'', \<lparr>mod_name = ''numpy.linalg'', mod_version = None\<rparr>),
      (''pandas'', \<lparr>mod_name = ''pandas'', mod_version = Some ''2.1.0''\<rparr>),
      (''psycopg2'',
         \<lparr>mod_name = ''psycopg2'', mod_version = Some ''2.9.3 (dt dec pq3 ext lo64)''\<rparr>),
      (''bokeh'', \<lparr>mod_name = ''bokeh'', mod_version = Some ''unknown''\<rparr>),
      (''yaml'', \<lparr>mod_name = ''yaml'', mod_version = None\<rparr>)]"

definition sample_world :: "nat list world" where
  "sample_world =
     \<lparr>import_module =
        (\<lambda>name. if name = [] then Inl (OtherError ''ValueError: Empty module name'')
                else case map_of installed name of
                  None \<Rightarrow> Inl (ImportError (''No module named '' @ quoted name))
                | Some m \<Rightarrow> Inr m),
      sys_modules = map_of installed,
      Version = release_Version,
      version_less = release_less,
      version_str = release_str\<rparr>"

section \<open>Facts about the helpers\<close>

lemma index0_split_on:
  "index0 (split_on sep cur s) = Inr (cur @ takeWhile (\<lambda>c. c \<noteq> sep) s)"
  by (induction s arbitrary: cur) simp_all

lemma parent_of_eq: "parent_of name = Inr (takeWhile (\<lambda>c. c \<noteq> CHR ''.'') name)"
  by (simp add: parent_of_def str_split_sep_def index0_split_on)

lemma index0_split_ws:
  "index0 (split_ws cur s) =
     (if cur \<noteq> [] then Inr (cur @ takeWhile (\<lambda>c. \<not> isspace c) s)
      else if dropWhile isspace s = [] then Inl (IndexError ''list index out of range'')
      else Inr (takeWhile (\<lambda>c. \<not> isspace c) (dropWhile isspace s)))"
  by (induction s arbitrary: cur) simp_all

lemma missing_not_undetermined: "missing_msg p e \<noteq> undetermined_msg n"
  by (simp add: missing_msg_def undetermined_msg_def)

lemma after_import_no_floor:
  assumes "parent_of name = Inr parent" "\<not> truthy (minimum_version_for min_version parent)"
  shows "after_import w name min_version errors module = ([], Inr (Some module))"
  using assms by (simp add: after_import_def)

lemma after_import_floor:
  assumes "parent_of name = Inr parent" "minimum_version_for min_version parent = Some v" "v \<noteq> []"
  shows "after_import w name min_version errors module =
           check_version w parent (dict_get (sys_modules w) parent module) v errors module"
  using assms by (simp add: after_import_def)

lemma iod_imported:
  assumes "errors \<in> {''raise'', ''warn'', ''ignore''}" "import_module w name = Inr module"
  shows "import_optional_dependency w name extra min_version errors =
           (ImportModule name # fst (after_import w name min_version errors module),
            snd (after_import w name min_version errors module))"
  using assms by (auto simp: import_optional_dependency_def split: prod.splits)

lemma iod_import_failed:
  assumes "errors \<in> {''raise'', ''warn'', ''ignore''}" "import_module w name = Inl err"
  shows "import_optional_dependency w name extra min_version errors =
           ([ImportModule name],
            if is_ImportError err then
              (if errors = ''raise''
               then Inl (ImportError (missing_msg (dict_get INSTALL_MAPPING name name) extra))
               else Inr None)
            else Inl err)"
  using assms by (auto simp: import_optional_dependency_def)

lemma check_version_cases:
  "check_version w parent mtc v errors module = (evs, out) \<Longrightarrow>
     (\<exists>e. out = Inl e) \<or>
     (out = Inr None \<and> errors \<noteq> ''raise'') \<or>
     (out = Inr (Some module) \<and>
        (\<exists>s iv rv. get_version mtc = Inr s \<and> Version w s = Some iv \<and> Version w v = Some rv
            \<and> \<not> version_less w iv rv))"
  by (auto simp: check_version_def Let_def split: sum.splits option.splits if_splits)

lemma sublist_version_msg:
  "sublist i (version_msg p i r)" "sublist r (version_msg p i r)"
proof -
  have "version_msg p i r = (quoted p @ '' version '' @ [CHR 0x27]) @ i @
          ([CHR 0x27] @ '' is installed; Dask requires version '' @ quoted r @ '' or newer.'')"
    by (simp add: version_msg_def quoted_def)
  then show "sublist i (version_msg p i r)"
    by (metis sublist_appendI)
  have "version_msg p i r =
          (quoted p @ '' version '' @ quoted i @ '' is installed; Dask requires version ''
             @ [CHR 0x27]) @ r @ ([CHR 0x27] @ '' or newer.'')"
    by (simp add: version_msg_def quoted_def)
  then show "sublist r (version_msg p i r)"
    by (metis sublist_appendI)
qed

lemma sublist_missing_msg:
  "sublist p (missing_msg p e)" "sublist e (missing_msg p e)"
proof -
  have "missing_msg p e = (''Missing optional dependency '' @ [CHR 0x27]) @ p @
          ([CHR 0x27] @ ''. '' @ e @ '' Use pip or conda to install '' @ p @ ''.'')"
    by (simp add: missing_msg_def quoted_def)
  then show "sublist p (missing_msg p e)"
    by (metis sublist_appendI)
  have "missing_msg p e = (''Missing optional dependency '' @ quoted p @ ''. '') @ e @
          ('' Use pip or conda to install '' @ p @ ''.'')"
    by (simp add: missing_msg_def quoted_def)
  then show "sublist e (missing_msg p e)"
    by (metis sublist_appendI)
qed

lemma VERSIONS_nonempty: "VERSIONS p = Some v \<Longrightarrow> v \<noteq> []"
  by (auto simp: VERSIONS_def split: if_splits)

lemma minimum_version_for_explicit:
  "v \<noteq> [] \<Longrightarrow> minimum_version_for (Some v) parent = Some v"
  by (simp add: minimum_version_for_def py_or_def)

lemma minimum_version_for_table:
  "\<not> truthy min_version \<Longrightarrow> minimum_version_for min_version parent = VERSIONS parent"
  by (simp add: minimum_version_for_def py_or_def)

lemma iod_trace_starts_with_import:
  assumes "errors \<in> {''raise'', ''warn'', ''ignore''}"
  shows "\<exists>evs out. import_optional_dependency w name extra min_version errors =
           (ImportModule name # evs, out)"
proof (cases "import_module w name")
  case (Inl err)
  from iod_import_failed [OF assms Inl] show ?thesis
    by simp
next
  case (Inr module)
  from iod_imported [OF assms Inr] show ?thesis
    by simp
qed


section \<open>Platform flags\<close>

text \<open>
  C9. Whatever \<open>sys.platform\<close> is, at most one of the four flags is true, and exactly
  one is true precisely when the identifier is one of \<open>emscripten\<close>, \<open>linux\<close>, \<open>darwin\<close>
  and \<open>win32\<close>.
\<close>

theorem platform_flags_exclusive:
  "flags_set platform \<le> 1 \<and>
   (flags_set platform = 1 \<longleftrightarrow>
      platform \<in> {''emscripten'', ''linux'', ''darwin'', ''win32''})"
  by (auto simp: flags_set_def platform_flags_def EMSCRIPTEN_def LINUX_def MACOS_def
      WINDOWS_def)

theorem platform_flags_exclusive_witness:
  "flags_set ''linux'' = 1 \<and> flags_set ''freebsd13'' \<le> 1 \<and> flags_set ''freebsd13'' \<noteq> 1"
  using platform_flags_exclusive [of "''linux''"] platform_flags_exclusive [of "''freebsd13''"]
  by simp

section \<open>The result of \<open>import_optional_dependency\<close>\<close>

text \<open>
  C1. With \<open>errors\<close> one of \<open>raise\<close>, \<open>warn\<close> and \<open>ignore\<close>, a call ends in one of three
  ways: it raises; or it returns \<open>None\<close>, and then \<open>errors\<close> is \<open>warn\<close> or \<open>ignore\<close>; or
  it returns the imported module, and then either no minimum version applies or the
  version of the checked module and the minimum both parse and the first is not below
  the second. So a module whose checked version is below the floor is never returned.
\<close>

theorem result_guarantee:
  assumes "errors \<in> {''raise'', ''warn'', ''ignore''}"
      and "import_optional_dependency w name extra min_version errors = (evs, out)"
  shows "(\<exists>e. out = Inl e) \<or>
         (out = Inr None \<and> errors \<in> {''warn'', ''ignore''}) \<or>
         (\<exists>module parent.
            out = Inr (Some module) \<and> import_module w name = Inr module \<and>
            parent_of name = Inr parent \<and>
            (\<not> truthy (minimum_version_for min_version parent) \<or>
             (\<exists>s iv rv.
                get_version (dict_get (sys_modules w) parent module) = Inr s \<and>
                Version w s = Some iv \<and>
                Version w (the (minimum_version_for min_version parent)) = Some rv \<and>
                \<not> version_less w iv rv)))"
proof (cases "import_module w name")
  case (Inl err)
  from iod_import_failed [OF assms(1) Inl] assms show ?thesis
    by (auto split: if_splits)
next
  case (Inr module)
  define parent where "parent = takeWhile (\<lambda>c. c \<noteq> CHR ''.'') name"
  have par: "parent_of name = Inr parent"
    by (simp add: parent_of_eq parent_def)
  from iod_imported [OF assms(1) Inr] assms(2)
  have out: "out = snd (after_import w name min_version errors module)"
    by simp
  show ?thesis
  proof (cases "truthy (minimum_version_for min_version parent)")
    case False
    with out par Inr show ?thesis
      by (simp add: after_import_no_floor)
  next
    case True
    then obtain v where v: "minimum_version_for min_version parent = Some v" "v \<noteq> []"
      by (cases "minimum_version_for min_version parent") auto
    let ?mtc = "dict_get (sys_modules w) parent module"
    have "check_version w parent ?mtc v errors module
            = (fst (check_version w parent ?mtc v errors module), out)"
      using out by (simp add: after_import_floor [OF par v])
    from check_version_cases [OF this] assms(1) par Inr v show ?thesis
      by auto
  qed
qed

theorem result_guarantee_witness:
  "''raise'' \<in> {''raise'', ''warn'', ''ignore''} \<and>
   import_optional_dependency sample_world ''pandas'' '''' None ''raise'' =
     ([ImportModule ''pandas''],
      Inr (Some \<lparr>mod_name = ''pandas'', mod_version = Some ''2.1.0''\<rparr>)) \<and>
   (\<exists>s iv rv.
      get_version (dict_get (sys_modules sample_world) ''pandas''
                     \<lparr>mod_name = ''pandas'', mod_version = Some ''2.1.0''\<rparr>) = Inr s \<and>
      Version sample_world s = Some iv \<and>
      Version sample_world ''2.0.0'' = Some rv \<and>
      \<not> version_less sample_world iv rv)"
proof -
  have h1: "''raise'' \<in> {''raise'', ''warn'', ''ignore''}"
    by simp
  have h2: "import_optional_dependency sample_world ''pandas'' '''' None ''raise'' =
     ([ImportModule ''pandas''],
      Inr (Some \<lparr>mod_name = ''pandas'', mod_version = Some ''2.1.0''\<rparr>))"
    by code_simp
  have p: "parent_of ''pandas'' = Inr ''pandas''"
    by code_simp
  have m: "minimum_version_for None ''pandas'' = Some ''2.0.0''"
    by code_simp
  from result_guarantee [OF h1 h2] p m h1 h2 show ?thesis
    by auto
qed

section \<open>A version below the minimum\<close>

text \<open>
  C2. The import succeeded, a minimum version applies, the version of the checked module
  and the minimum both parse, and the first is below the second. Then \<open>warn\<close> records
  one \<open>UserWarning\<close> whose text holds both versions and returns \<open>None\<close>; \<open>raise\<close> raises
  \<open>ImportError\<close> with that text; \<open>ignore\<close> returns \<open>None\<close>, and the trace holds no warning.
\<close>

theorem too_old_policy:
  assumes "import_module w name = Inr module"
      and "parent_of name = Inr parent"
      and "minimum_version_for min_version parent = Some v" and "v \<noteq> []"
      and "get_version (dict_get (sys_modules w) parent module) = Inr s"
      and "Version w s = Some iv" and "Version w v = Some rv"
      and "version_less w iv rv"
  shows "import_optional_dependency w name extra min_version ''warn'' =
           ([ImportModule name,
             Warn (version_msg parent (version_str w iv) (version_str w rv)) UserWarning],
            Inr None) \<and>
         import_optional_dependency w name extra min_version ''raise'' =
           ([ImportModule name],
            Inl (ImportError (version_msg parent (version_str w iv) (version_str w rv)))) \<and>
         import_optional_dependency w name extra min_version ''ignore'' =
           ([ImportModule name], Inr None) \<and>
         sublist (version_str w iv)
           (version_msg parent (version_str w iv) (version_str w rv)) \<and>
         sublist (version_str w rv)
           (version_msg parent (version_str w iv) (version_str w rv))"
proof -
  have cv: "after_import w name min_version errors module =
        (if errors = ''warn''
         then ([Warn (version_msg parent (version_str w iv) (version_str w rv)) UserWarning],
               Inr None)
         else if errors = ''raise''
         then ([], Inl (ImportError
                          (version_msg parent (version_str w iv) (version_str w rv))))
         else ([], Inr None))" for errors
    using assms(5-8)
    by (simp add: after_import_floor [OF assms(2-4)] check_version_def)
  show ?thesis
    using assms(1) by (simp add: iod_imported cv sublist_version_msg)
qed

theorem too_old_policy_witness:
  "import_module sample_world ''numpy'' =
     Inr \<lparr>mod_name = ''numpy'', mod_version = Some ''1.0.0''\<rparr> \<and>
   parent_of ''numpy'' = Inr ''numpy'' \<and>
   minimum_version_for None ''numpy'' = Some ''1.21.0'' \<and>
   get_version (dict_get (sys_modules sample_world) ''numpy''
                  \<lparr>mod_name = ''numpy'', mod_version = Some ''1.0.0''\<rparr>) = Inr ''1.0.0'' \<and>
   Version sample_world ''1.0.0'' = Some [1, 0, 0] \<and>
   Version sample_world ''1.21.0'' = Some [1, 21, 0] \<and>
   version_less sample_world [1, 0, 0] [1, 21, 0] \<and>
   import_optional_dependency sample_world ''numpy'' '''' None ''warn'' =
     ([ImportModule ''numpy'', Warn (version_msg ''numpy'' ''1.0.0'' ''1.21.0'') UserWarning],
      Inr None) \<and>
   import_optional_dependency sample_world ''numpy'' '''' None ''raise'' =
     ([ImportModule ''numpy''], Inl (ImportError (version_msg ''numpy'' ''1.0.0'' ''1.21.0''))) \<and>
   import_optional_dependency sample_world ''numpy'' '''' None ''ignore'' =
     ([ImportModule ''numpy''], Inr None)"
proof -
  let ?m = "\<lparr>mod_name = ''numpy'', mod_version = Some ''1.0.0''\<rparr>"
  have h1: "import_module sample_world ''numpy'' = Inr ?m"
    by code_simp
  have h2: "parent_of ''numpy'' = Inr ''numpy''"
    by code_simp
  have h3: "minimum_version_for None ''numpy'' = Some ''1.21.0''"
    by code_simp
  have h4: "''1.21.0'' \<noteq> []"
    by simp
  have h5: "get_version (dict_get (sys_modules sample_world) ''numpy'' ?m) = Inr ''1.0.0''"
    by code_simp
  have h6: "Version sample_world ''1.0.0'' = Some [1, 0, 0]"
    by code_simp
  have h7: "Version sample_world ''1.21.0'' = Some [1, 21, 0]"
    by code_simp
  have h8: "version_less sample_world [1, 0, 0] [1, 21, 0]"
    by code_simp
  have s1: "version_str sample_world [1, 0, 0] = ''1.0.0''"
    by code_simp
  have s2: "version_str sample_world [1, 21, 0] = ''1.21.0''"
    by code_simp
  from too_old_policy [OF h1 h2 h3 h4 h5 h6 h7 h8, of "''''"] h1 h2 h3 h5 h6 h7 h8
  show ?thesis
    by (simp only: s1 s2 simp_thms)
qed

section \<open>A version that does not parse\<close>

text \<open>
  C3. The import succeeded, a minimum version applies, and the string \<open>get_version\<close>
  returns for the checked module is refused by \<open>Version\<close>. Then the call raises
  \<open>ImportError\<close> with the invalid-version text, which names the top-level package,
  whichever of the three policies \<open>errors\<close> is: never \<open>None\<close>, never a warning.
\<close>

theorem invalid_version_unconditional:
  assumes "errors \<in> {''raise'', ''warn'', ''ignore''}"
      and "import_module w name = Inr module"
      and "parent_of name = Inr parent"
      and "minimum_version_for min_version parent = Some v" and "v \<noteq> []"
      and "get_version (dict_get (sys_modules w) parent module) = Inr s"
      and "Version w s = None"
  shows "import_optional_dependency w name extra min_version errors =
           ([ImportModule name], Inl (ImportError (invalid_msg parent))) \<and>
         sublist parent (invalid_msg parent)"
proof -
  have "after_import w name min_version errors module =
          ([], Inl (ImportError (invalid_msg parent)))"
    using assms(6,7) by (simp add: after_import_floor [OF assms(3-5)] check_version_def)
  moreover have "invalid_msg parent =
      (''Invalid version for the module '' @ [CHR 0x27]) @ parent @ ([CHR 0x27] @ ''.'')"
    by (simp add: invalid_msg_def quoted_def)
  then have "sublist parent (invalid_msg parent)"
    by (metis sublist_appendI)
  ultimately show ?thesis
    using assms(1,2) by (simp add: iod_imported)
qed

theorem invalid_version_unconditional_witness:
  "''ignore'' \<in> {''raise'', ''warn'', ''ignore''} \<and>
   import_module sample_world ''bokeh'' =
     Inr \<lparr>mod_name = ''bokeh'', mod_version = Some ''unknown''\<rparr> \<and>
   parent_of ''bokeh'' = Inr ''bokeh'' \<and>
   minimum_version_for None ''bokeh'' = Some ''2.4.2'' \<and>
   get_version (dict_get (sys_modules sample_world) ''bokeh''
                  \<lparr>mod_name = ''bokeh'', mod_version = Some ''unknown''\<rparr>) = Inr ''unknown'' \<and>
   Version sample_world ''unknown'' = None \<and>
   import_optional_dependency sample_world ''bokeh'' '''' None ''ignore'' =
     ([ImportModule ''bokeh''], Inl (ImportError (invalid_msg ''bokeh'')))"
proof -
  let ?m = "\<lparr>mod_name = ''bokeh'', mod_version = Some ''unknown''\<rparr>"
  have h1: "''ignore'' \<in> {''raise'', ''warn'', ''ignore''}"
    by simp
  have h2: "import_module sample_world ''bokeh'' = Inr ?m"
    by code_simp
  have h3: "parent_of ''bokeh'' = Inr ''bokeh''"
    by code_simp
  have h4: "minimum_version_for None ''bokeh'' = Some ''2.4.2''"
    by code_simp
  have h5: "''2.4.2'' \<noteq> []"
    by simp
  have h6: "get_version (dict_get (sys_modules sample_world) ''bokeh'' ?m) = Inr ''unknown''"
    by code_simp
  have h7: "Version sample_world ''unknown'' = None"
    by code_simp
  from invalid_version_unconditional [OF h1 h2 h3 h4 h5 h6 h7, of "''''"] h1 h2 h3 h4 h6 h7
  show ?thesis
    by (simp only: simp_thms)
qed

section \<open>A failed import\<close>

text \<open>
  C4, as the code has it. When \<open>importlib.import_module\<close> fails with \<open>ImportError\<close> (the
  one exception line 94 catches): under \<open>raise\<close> the call raises \<open>ImportError\<close> with the
  missing-dependency text, which holds the name \<open>INSTALL_MAPPING\<close> gives for \<open>name\<close> and
  the \<open>extra\<close> text; under \<open>warn\<close> and \<open>ignore\<close> it returns \<open>None\<close>, and the trace holds the
  import attempt only, no warning.
\<close>

theorem missing_dependency:
  assumes "import_module w name = Inl err" and "is_ImportError err"
  shows "import_optional_dependency w name extra min_version ''raise'' =
           ([ImportModule name],
            Inl (ImportError (missing_msg (dict_get INSTALL_MAPPING name name) extra))) \<and>
         sublist (dict_get INSTALL_MAPPING name name)
           (missing_msg (dict_get INSTALL_MAPPING name name) extra) \<and>
         sublist extra (missing_msg (dict_get INSTALL_MAPPING name name) extra) \<and>
         import_optional_dependency w name extra min_version ''warn'' =
           ([ImportModule name], Inr None) \<and>
         import_optional_dependency w name extra min_version ''ignore'' =
           ([ImportModule name], Inr None)"
  using assms by (simp add: iod_import_failed sublist_missing_msg)

text \<open>
  C4 as stated covers every name whose import fails. The import of the empty name fails
  with \<open>ValueError\<close>, which \<open>except ImportError\<close> does not catch: the exception goes
  through under \<open>ignore\<close> and \<open>warn\<close>, where the claim has \<open>None\<close>, and under \<open>raise\<close> it is
  not the missing-dependency \<open>ImportError\<close>.
\<close>

theorem missing_dependency_counterexample:
  "import_module sample_world '''' = Inl (OtherError ''ValueError: Empty module name'') \<and>
   import_optional_dependency sample_world '''' '''' None ''ignore'' =
     ([ImportModule ''''], Inl (OtherError ''ValueError: Empty module name'')) \<and>
   import_optional_dependency sample_world '''' '''' None ''warn'' =
     ([ImportModule ''''], Inl (OtherError ''ValueError: Empty module name'')) \<and>
   import_optional_dependency sample_world '''' '''' None ''raise'' =
     ([ImportModule ''''], Inl (OtherError ''ValueError: Empty module name'')) \<and>
   snd (import_optional_dependency sample_world '''' '''' None ''ignore'') \<noteq> Inr None \<and>
   snd (import_optional_dependency sample_world '''' '''' None ''warn'') \<noteq> Inr None \<and>
   snd (import_optional_dependency sample_world '''' '''' None ''raise'') \<noteq>
     Inl (ImportError (missing_msg (dict_get INSTALL_MAPPING '''' '''') ''''))"
proof -
  have i: "import_module sample_world '''' = Inl (OtherError ''ValueError: Empty module name'')"
    by code_simp
  have a: "import_optional_dependency sample_world '''' '''' None ''ignore'' =
             ([ImportModule ''''], Inl (OtherError ''ValueError: Empty module name''))"
    by code_simp
  have b: "import_optional_dependency sample_world '''' '''' None ''warn'' =
             ([ImportModule ''''], Inl (OtherError ''ValueError: Empty module name''))"
    by code_simp
  have c: "import_optional_dependency sample_world '''' '''' None ''raise'' =
             ([ImportModule ''''], Inl (OtherError ''ValueError: Empty module name''))"
    by code_simp
  from i a b c show ?thesis
    by simp
qed

theorem missing_dependency_witness:
  "import_module sample_world ''sqlalchemy'' =
     Inl (ImportError (''No module named '' @ quoted ''sqlalchemy'')) \<and>
   is_ImportError (ImportError (''No module named '' @ quoted ''sqlalchemy'')) \<and>
   import_optional_dependency sample_world ''sqlalchemy'' ''Needed for SQL.'' None ''raise'' =
     ([ImportModule ''sqlalchemy''],
      Inl (ImportError (missing_msg ''SQLAlchemy'' ''Needed for SQL.''))) \<and>
   import_optional_dependency sample_world ''sqlalchemy'' ''Needed for SQL.'' None ''warn'' =
     ([ImportModule ''sqlalchemy''], Inr None) \<and>
   import_optional_dependency sample_world ''sqlalchemy'' ''Needed for SQL.'' None ''ignore'' =
     ([ImportModule ''sqlalchemy''], Inr None)"
proof -
  have h1: "import_module sample_world ''sqlalchemy'' =
              Inl (ImportError (''No module named '' @ quoted ''sqlalchemy''))"
    by code_simp
  have h2: "is_ImportError (ImportError (''No module named '' @ quoted ''sqlalchemy''))"
    by simp
  have g: "dict_get INSTALL_MAPPING ''sqlalchemy'' ''sqlalchemy'' = ''SQLAlchemy''"
    by code_simp
  from missing_dependency [OF h1 h2, of "''Needed for SQL.''" None] h1 h2
  show ?thesis
    by (simp only: g simp_thms)
qed

section \<open>Which minimum version applies\<close>

text \<open>
  C5, as the code has it. After a successful import: a \<open>min_version\<close> argument that is a
  non-empty string is the minimum, whatever \<open>VERSIONS\<close> holds, and the call goes on with
  the version check against it; a \<open>min_version\<close> that is \<open>None\<close> or the empty string
  leaves the entry of \<open>VERSIONS\<close> for the top-level name as the minimum; and with no such
  entry either there is no version check and the module is returned.
\<close>

theorem minimum_version_precedence:
  assumes "errors \<in> {''raise'', ''warn'', ''ignore''}"
      and "import_module w name = Inr module"
      and "parent_of name = Inr parent"
  shows "(\<forall>v. min_version = Some v \<and> v \<noteq> [] \<longrightarrow>
            minimum_version_for min_version parent = Some v \<and>
            import_optional_dependency w name extra min_version errors =
              (ImportModule name #
                 fst (check_version w parent (dict_get (sys_modules w) parent module) v
                        errors module),
               snd (check_version w parent (dict_get (sys_modules w) parent module) v
                      errors module))) \<and>
         (\<forall>v. \<not> truthy min_version \<and> VERSIONS parent = Some v \<longrightarrow>
            minimum_version_for min_version parent = Some v \<and>
            import_optional_dependency w name extra min_version errors =
              (ImportModule name #
                 fst (check_version w parent (dict_get (sys_modules w) parent module) v
                        errors module),
               snd (check_version w parent (dict_get (sys_modules w) parent module) v
                      errors module))) \<and>
         (\<not> truthy min_version \<and> VERSIONS parent = None \<longrightarrow>
            import_optional_dependency w name extra min_version errors =
              ([ImportModule name], Inr (Some module)))"
proof (intro conjI allI impI)
  fix v
  assume a: "min_version = Some v \<and> v \<noteq> []"
  then show m: "minimum_version_for min_version parent = Some v"
    by (simp add: minimum_version_for_explicit)
  from a have "v \<noteq> []"
    by simp
  then have ai: "after_import w name min_version errors module =
      check_version w parent (dict_get (sys_modules w) parent module) v errors module"
    by (rule after_import_floor [OF assms(3) m])
  show "import_optional_dependency w name extra min_version errors =
      (ImportModule name #
         fst (check_version w parent (dict_get (sys_modules w) parent module) v errors module),
       snd (check_version w parent (dict_get (sys_modules w) parent module) v errors module))"
    by (simp only: iod_imported [OF assms(1,2)] ai)
next
  fix v
  assume a: "\<not> truthy min_version \<and> VERSIONS parent = Some v"
  then show m: "minimum_version_for min_version parent = Some v"
    by (simp add: minimum_version_for_table)
  from a have "v \<noteq> []"
    using VERSIONS_nonempty [of parent v] by simp
  then have ai: "after_import w name min_version errors module =
      check_version w parent (dict_get (sys_modules w) parent module) v errors module"
    by (rule after_import_floor [OF assms(3) m])
  show "import_optional_dependency w name extra min_version errors =
      (ImportModule name #
         fst (check_version w parent (dict_get (sys_modules w) parent module) v errors module),
       snd (check_version w parent (dict_get (sys_modules w) parent module) v errors module))"
    by (simp only: iod_imported [OF assms(1,2)] ai)
next
  assume "\<not> truthy min_version \<and> VERSIONS parent = None"
  then have "\<not> truthy (minimum_version_for min_version parent)"
    by (simp add: minimum_version_for_table)
  then show "import_optional_dependency w name extra min_version errors =
      ([ImportModule name], Inr (Some module))"
    by (simp add: iod_imported [OF assms(1,2)] after_import_no_floor [OF assms(3)])
qed

text \<open>
  C5 as stated covers every supplied \<open>min_version\<close>. The empty string is supplied here,
  \<open>numpy\<close> 1.0.0 is installed, and the minimum that is enforced is the table's 1.21.0:
  \<open>min_version or VERSIONS.get(parent)\<close> tests the truth value of the argument.
\<close>

theorem explicit_minimum_counterexample:
  "minimum_version_for (Some '''') ''numpy'' \<noteq> Some '''' \<and>
   minimum_version_for (Some '''') ''numpy'' = Some ''1.21.0'' \<and>
   import_optional_dependency sample_world ''numpy'' '''' (Some '''') ''raise'' =
     ([ImportModule ''numpy''], Inl (ImportError (version_msg ''numpy'' ''1.0.0'' ''1.21.0'')))"
proof (intro conjI)
  show "minimum_version_for (Some '''') ''numpy'' \<noteq> Some ''''"
    by code_simp
  show "minimum_version_for (Some '''') ''numpy'' = Some ''1.21.0''"
    by code_simp
  show "import_optional_dependency sample_world ''numpy'' '''' (Some '''') ''raise'' =
     ([ImportModule ''numpy''], Inl (ImportError (version_msg ''numpy'' ''1.0.0'' ''1.21.0'')))"
    by code_simp
qed

theorem minimum_version_precedence_witness:
  "''raise'' \<in> {''raise'', ''warn'', ''ignore''} \<and>
   import_module sample_world ''numpy.linalg'' =
     Inr \<lparr>mod_name = ''numpy.linalg'', mod_version = None\<rparr> \<and>
   parent_of ''numpy.linalg'' = Inr ''numpy'' \<and>
   minimum_version_for (Some ''0.9'') ''numpy'' = Some ''0.9'' \<and>
   import_optional_dependency sample_world ''numpy.linalg'' '''' (Some ''0.9'') ''raise'' =
     ([ImportModule ''numpy.linalg''],
      Inr (Some \<lparr>mod_name = ''numpy.linalg'', mod_version = None\<rparr>)) \<and>
   VERSIONS ''numpy'' = Some ''1.21.0'' \<and>
   import_optional_dependency sample_world ''numpy.linalg'' '''' None ''raise'' =
     ([ImportModule ''numpy.linalg''],
      Inl (ImportError (version_msg ''numpy'' ''1.0.0'' ''1.21.0'')))"
proof -
  let ?m = "\<lparr>mod_name = ''numpy.linalg'', mod_version = None\<rparr>"
  let ?top = "\<lparr>mod_name = ''numpy'', mod_version = Some ''1.0.0''\<rparr>"
  have h1: "''raise'' \<in> {''raise'', ''warn'', ''ignore''}"
    by simp
  have h2: "import_module sample_world ''numpy.linalg'' = Inr ?m"
    by code_simp
  have h3: "parent_of ''numpy.linalg'' = Inr ''numpy''"
    by code_simp
  have t: "VERSIONS ''numpy'' = Some ''1.21.0''"
    by code_simp
  have d: "dict_get (sys_modules sample_world) ''numpy'' ?m = ?top"
    by code_simp
  have c1: "check_version sample_world ''numpy'' ?top ''0.9'' ''raise'' ?m = ([], Inr (Some ?m))"
    by code_simp
  have c2: "check_version sample_world ''numpy'' ?top ''1.21.0'' ''raise'' ?m =
              ([], Inl (ImportError (version_msg ''numpy'' ''1.0.0'' ''1.21.0'')))"
    by code_simp
  note prec = minimum_version_precedence [OF h1 h2 h3]
  from prec [of "Some ''0.9''" "''''"]
  have a: "minimum_version_for (Some ''0.9'') ''numpy'' = Some ''0.9''"
    and b: "import_optional_dependency sample_world ''numpy.linalg'' '''' (Some ''0.9'') ''raise'' =
     ([ImportModule ''numpy.linalg''], Inr (Some ?m))"
    by (simp_all add: d c1)
  from prec [of None "''''"] t
  have c: "import_optional_dependency sample_world ''numpy.linalg'' '''' None ''raise'' =
     ([ImportModule ''numpy.linalg''],
      Inl (ImportError (version_msg ''numpy'' ''1.0.0'' ''1.21.0'')))"
    by (simp add: d c2)
  from h1 h2 h3 a b t c show ?thesis
    by (simp only: simp_thms)
qed

section \<open>The \<open>errors\<close> argument\<close>

text \<open>
  C6. When \<open>errors\<close> is none of \<open>raise\<close>, \<open>warn\<close> and \<open>ignore\<close> the call raises
  \<open>AssertionError\<close> with an empty trace: no import was attempted and no warning was
  recorded. When \<open>errors\<close> is one of the three the assertion passes: the trace starts with
  the import attempt.
\<close>

theorem errors_assertion:
  "(errors \<notin> {''raise'', ''warn'', ''ignore''} \<longrightarrow>
      import_optional_dependency w name extra min_version errors =
        ([], Inl (AssertionError assert_msg))) \<and>
   (errors \<in> {''raise'', ''warn'', ''ignore''} \<longrightarrow>
      (\<exists>evs out. import_optional_dependency w name extra min_version errors =
         (ImportModule name # evs, out)))"
proof (intro conjI impI)
  assume "errors \<notin> {''raise'', ''warn'', ''ignore''}"
  then show "import_optional_dependency w name extra min_version errors =
               ([], Inl (AssertionError assert_msg))"
    by (simp add: import_optional_dependency_def)
next
  assume "errors \<in> {''raise'', ''warn'', ''ignore''}"
  then show "\<exists>evs out. import_optional_dependency w name extra min_version errors =
               (ImportModule name # evs, out)"
    by (rule iod_trace_starts_with_import)
qed

theorem errors_assertion_witness:
  "''skip'' \<notin> {''raise'', ''warn'', ''ignore''} \<and>
   import_optional_dependency sample_world ''numpy'' '''' None ''skip'' =
     ([], Inl (AssertionError ''Invalid error handling strategy specified.'')) \<and>
   ''warn'' \<in> {''raise'', ''warn'', ''ignore''} \<and>
   (\<exists>evs out. import_optional_dependency sample_world ''numpy'' '''' None ''warn'' =
      (ImportModule ''numpy'' # evs, out))"
proof -
  have h1: "''skip'' \<notin> {''raise'', ''warn'', ''ignore''}"
    by simp
  have h2: "''warn'' \<in> {''raise'', ''warn'', ''ignore''}"
    by simp
  from errors_assertion [of "''skip''" sample_world "''numpy''" "''''" None] h1
  have a: "import_optional_dependency sample_world ''numpy'' '''' None ''skip'' =
     ([], Inl (AssertionError ''Invalid error handling strategy specified.''))"
    by (simp only: assert_msg_def simp_thms)
  from errors_assertion [of "''warn''" sample_world "''numpy''" "''''" None] h2
  have b: "\<exists>evs out. import_optional_dependency sample_world ''numpy'' '''' None ''warn'' =
      (ImportModule ''numpy'' # evs, out)"
    by (simp only: simp_thms)
  from h1 a h2 b show ?thesis
    by (simp only: simp_thms)
qed

section \<open>No minimum, no look at the version\<close>

text \<open>
  C7. After a successful import with \<open>min_version\<close> absent and the top-level name not in
  \<open>VERSIONS\<close>, the module is returned, whatever its \<open>__version__\<close> is and whatever module
  \<open>sys.modules\<close> holds for the top-level name: the statement holds for every module and
  world, so also for a module with no version attribute. And a call can only end in the
  \<open>ImportError\<close> of \<open>get_version\<close> ("Cannot determine the version") when a minimum version
  applies.
\<close>

theorem no_floor_no_version_read:
  assumes "errors \<in> {''raise'', ''warn'', ''ignore''}"
      and "parent_of name = Inr parent"
  shows "(import_module w name = Inr module \<and> min_version = None \<and> VERSIONS parent = None
            \<longrightarrow> import_optional_dependency w name extra min_version errors =
                  ([ImportModule name], Inr (Some module))) \<and>
         (snd (import_optional_dependency w name extra min_version errors) =
            Inl (ImportError (undetermined_msg n))
            \<longrightarrow> truthy (minimum_version_for min_version parent))"
proof (intro conjI impI)
  assume a: "import_module w name = Inr module \<and> min_version = None \<and> VERSIONS parent = None"
  then have "\<not> truthy (minimum_version_for min_version parent)"
    by (simp add: minimum_version_for_table)
  with a show "import_optional_dependency w name extra min_version errors =
      ([ImportModule name], Inr (Some module))"
    by (simp add: iod_imported [OF assms(1)] after_import_no_floor [OF assms(2)])
next
  assume u: "snd (import_optional_dependency w name extra min_version errors) =
               Inl (ImportError (undetermined_msg n))"
  show "truthy (minimum_version_for min_version parent)"
  proof (cases "import_module w name")
    case (Inl err)
    from u show ?thesis
      by (simp add: iod_import_failed [OF assms(1) Inl] missing_not_undetermined
          split: if_splits)
  next
    case (Inr module)
    show ?thesis
    proof (rule ccontr)
      assume "\<not> truthy (minimum_version_for min_version parent)"
      with u show False
        by (simp add: iod_imported [OF assms(1) Inr] after_import_no_floor [OF assms(2)])
    qed
  qed
qed

theorem no_floor_no_version_read_witness:
  "''raise'' \<in> {''raise'', ''warn'', ''ignore''} \<and>
   parent_of ''yaml'' = Inr ''yaml'' \<and>
   import_module sample_world ''yaml'' = Inr \<lparr>mod_name = ''yaml'', mod_version = None\<rparr> \<and>
   VERSIONS ''yaml'' = None \<and>
   import_optional_dependency sample_world ''yaml'' '''' None ''raise'' =
     ([ImportModule ''yaml''], Inr (Some \<lparr>mod_name = ''yaml'', mod_version = None\<rparr>)) \<and>
   snd (import_optional_dependency sample_world ''yaml'' '''' (Some ''1.0'') ''raise'') =
     Inl (ImportError (undetermined_msg ''yaml'')) \<and>
   truthy (minimum_version_for (Some ''1.0'') ''yaml'')"
proof -
  let ?m = "\<lparr>mod_name = ''yaml'', mod_version = None\<rparr>"
  have h1: "''raise'' \<in> {''raise'', ''warn'', ''ignore''}"
    by simp
  have h2: "parent_of ''yaml'' = Inr ''yaml''"
    by code_simp
  have h3: "import_module sample_world ''yaml'' = Inr ?m"
    by code_simp
  have h4: "VERSIONS ''yaml'' = None"
    by code_simp
  have h5: "snd (import_optional_dependency sample_world ''yaml'' '''' (Some ''1.0'') ''raise'') =
              Inl (ImportError (undetermined_msg ''yaml''))"
    by code_simp
  note nf = no_floor_no_version_read [OF h1 h2]
  from nf [of sample_world ?m None "''''"] h3 h4
  have a: "import_optional_dependency sample_world ''yaml'' '''' None ''raise'' =
             ([ImportModule ''yaml''], Inr (Some ?m))"
    by (simp only: simp_thms)
  from nf [of sample_world ?m "Some ''1.0''" "''''" "''yaml''"] h5
  have b: "truthy (minimum_version_for (Some ''1.0'') ''yaml'')"
    by (simp only: simp_thms)
  from h1 h2 h3 h4 a h5 b show ?thesis
    by (simp only: simp_thms)
qed

section \<open>\<open>get_version\<close> and \<open>psycopg2\<close>\<close>

text \<open>
  C8. For the module named \<open>psycopg2\<close> with version string
  \<open>2.9.3 (dt dec pq3 ext lo64)\<close>, \<open>get_version\<close> returns \<open>2.9.3\<close>. For every module with
  a non-empty version string, \<open>get_version\<close> returns the first token of \<open>split()\<close> when
  the module's name is \<open>psycopg2\<close> and the whole string, untouched, for every other name.
  That first token is the leading run of non-whitespace characters after the leading
  whitespace (\<open>IndexError\<close> when the string is all whitespace).
\<close>

theorem get_version_psycopg2:
  "get_version \<lparr>mod_name = ''psycopg2'', mod_version = Some ''2.9.3 (dt dec pq3 ext lo64)''\<rparr>
     = Inr ''2.9.3'' \<and>
   (\<forall>m v. mod_version m = Some v \<and> v \<noteq> [] \<longrightarrow>
      get_version m =
        (if mod_name m = ''psycopg2'' then index0 (str_split v) else Inr v)) \<and>
   (\<forall>v. index0 (str_split v) =
      (if dropWhile isspace v = [] then Inl (IndexError ''list index out of range'')
       else Inr (takeWhile (\<lambda>c. \<not> isspace c) (dropWhile isspace v))))"
proof (intro conjI allI impI)
  show "get_version
          \<lparr>mod_name = ''psycopg2'', mod_version = Some ''2.9.3 (dt dec pq3 ext lo64)''\<rparr>
        = Inr ''2.9.3''"
    by code_simp
next
  fix m :: pymodule and v
  assume "mod_version m = Some v \<and> v \<noteq> []"
  then show "get_version m =
               (if mod_name m = ''psycopg2'' then index0 (str_split v) else Inr v)"
    by (simp add: get_version_def)
next
  fix v
  show "index0 (str_split v) =
      (if dropWhile isspace v = [] then Inl (IndexError ''list index out of range'')
       else Inr (takeWhile (\<lambda>c. \<not> isspace c) (dropWhile isspace v)))"
    by (simp add: str_split_def index0_split_ws)
qed

theorem get_version_psycopg2_witness:
  "get_version \<lparr>mod_name = ''psycopg'', mod_version = Some ''3.1.8 (extra text)''\<rparr>
     = Inr ''3.1.8 (extra text)'' \<and>
   get_version \<lparr>mod_name = ''psycopg2'', mod_version = Some ''2.9.3 (dt dec pq3 ext lo64)''\<rparr>
     = Inr ''2.9.3'' \<and>
   get_version \<lparr>mod_name = ''psycopg2'', mod_version = Some ''2.9.9''\<rparr>
     = index0 (str_split ''2.9.9'')"
proof -
  note gv = get_version_psycopg2 [THEN conjunct2, THEN conjunct1, rule_format]
  have a: "get_version \<lparr>mod_name = ''psycopg'', mod_version = Some ''3.1.8 (extra text)''\<rparr>
             = Inr ''3.1.8 (extra text)''"
    using gv [of "\<lparr>mod_name = ''psycopg'', mod_version = Some ''3.1.8 (extra text)''\<rparr>"
                 "''3.1.8 (extra text)''"]
    by simp
  have b: "get_version \<lparr>mod_name = ''psycopg2'', mod_version = Some ''2.9.9''\<rparr>
             = index0 (str_split ''2.9.9'')"
    using gv [of "\<lparr>mod_name = ''psycopg2'', mod_version = Some ''2.9.9''\<rparr>" "''2.9.9''"]
    by simp
  from a b get_version_psycopg2 [THEN conjunct1] show ?thesis
    by (simp only: simp_thms)
qed

section \<open>\<open>INSTALL_MAPPING\<close> is looked up with the full dotted name\<close>



end
